theory Spec2Isabelle
  imports Main "HOL-Library.Word"
begin

unbundle bit_operations_syntax

section \<open>Network endpoint addresses of pvxs: \<open>SockAddr\<close> (src/util.cpp)\<close>

text \<open>
  The development embeds the \<open>SockAddr\<close> part of \<^verbatim>\<open>src/util.cpp\<close>: the constructors
  \<open>any\<close> and \<open>loopback\<close>, the accessors and predicates, \<open>map4to6\<close>, the text parser
  \<open>setAddress\<close> with the integer parser \<open>parseTo<uint64_t>\<close> it calls, and the stream
  output operator. C++ exceptions are values of the type \<open>error\<close>; a function that may
  throw returns \<open>error + 'a\<close> with \<open>Inl\<close> for the exception.
\<close>

subsection \<open>Exceptions\<close>

text \<open>
  One constructor for each exception class thrown in the file, carrying the message.
  \<open>NoConvert\<close> is the exception of \<open>parseTo\<close>.
\<close>

datatype error =
    runtime_error string
  | NoConvert string
  | invalid_argument string
  | logic_error string

subsection \<open>The storage\<close>

text \<open>
  \<open>SockAddr\<close> holds a union \<open>store\<close> of the native records \<open>sockaddr\<close>, \<open>sockaddr_in\<close>
  and \<open>sockaddr_in6\<close>. The family tag \<open>sa_family\<close> is the common first member of the
  three. Every function of the file reads only the members of the record that the tag
  selects, after writing them itself or after the zero initialisation \<open>store{}\<close>, so the
  members of \<open>in\<close> and \<open>in6\<close> are separate fields here. A field in network byte order
  is modelled by its bytes in memory order (most significant byte first), which does not
  depend on the byte order of the host.
\<close>

type_synonym byte = "8 word"
type_synonym in_port_t = "byte \<times> byte"
type_synonym in_addr_t = "byte \<times> byte \<times> byte \<times> byte"
type_synonym in6_addr = "byte list"

record SockAddr =
  sa_family :: int
  sin_port :: in_port_t
  sin_addr :: in_addr_t
  sin6_port :: in_port_t
  sin6_addr :: in6_addr
  sin6_scope_id :: "32 word"

text \<open>The family tags, with the values of the Linux headers.\<close>

definition AF_UNSPEC :: int where "AF_UNSPEC = 0"
definition AF_INET :: int where "AF_INET = 2"
definition AF_INET6 :: int where "AF_INET6 = 10"

lemmas AF_defs = AF_UNSPEC_def AF_INET_def AF_INET6_def

definition htons :: "16 word \<Rightarrow> in_port_t" where
  "htons p = (ucast (drop_bit 8 p), ucast p)"

definition ntohs :: "in_port_t \<Rightarrow> 16 word" where
  "ntohs n = (case n of (hi, lo) \<Rightarrow> push_bit 8 (ucast hi) OR ucast lo)"

definition htonl :: "32 word \<Rightarrow> in_addr_t" where
  "htonl a = (ucast (drop_bit 24 a), ucast (drop_bit 16 a), ucast (drop_bit 8 a), ucast a)"

definition INADDR_ANY :: "32 word" where "INADDR_ANY = 0x00000000"
definition INADDR_LOOPBACK :: "32 word" where "INADDR_LOOPBACK = 0x7f000001"

definition IN6ADDR_ANY_INIT :: in6_addr where
  "IN6ADDR_ANY_INIT = [0, 0, 0, 0, 0, 0, 0, 0, 0, 0, 0, 0, 0, 0, 0, 0]"

definition IN6ADDR_LOOPBACK_INIT :: in6_addr where
  "IN6ADDR_LOOPBACK_INIT = [0, 0, 0, 0, 0, 0, 0, 0, 0, 0, 0, 0, 0, 0, 0, 1]"

definition IN6_IS_ADDR_UNSPECIFIED :: "in6_addr \<Rightarrow> bool" where
  "IN6_IS_ADDR_UNSPECIFIED a = (a = IN6ADDR_ANY_INIT)"

definition IN6_IS_ADDR_LOOPBACK :: "in6_addr \<Rightarrow> bool" where
  "IN6_IS_ADDR_LOOPBACK a = (a = IN6ADDR_LOOPBACK_INIT)"

text \<open>The zero-initialised union, \<open>store{}\<close>.\<close>

definition store0 :: SockAddr where
  "store0 = \<lparr>sa_family = 0, sin_port = (0, 0), sin_addr = (0, 0, 0, 0),
             sin6_port = (0, 0), sin6_addr = replicate 16 0, sin6_scope_id = 0\<rparr>"

subsection \<open>Constructors and accessors\<close>

text \<open>\<open>SockAddr::SockAddr(int af)\<close>; the default argument of \<open>af\<close> is \<open>AF_UNSPEC\<close>.\<close>

definition SockAddr_af :: "int \<Rightarrow> error + SockAddr" where
  "SockAddr_af af =
     (if af \<noteq> AF_INET \<and> af \<noteq> AF_INET6 \<and> af \<noteq> AF_UNSPEC
      then Inl (invalid_argument ''Unsupported address family'')
      else Inr (store0\<lparr>sa_family := af\<rparr>))"

definition family :: "SockAddr \<Rightarrow> int" where
  "family self = sa_family self"

definition port :: "SockAddr \<Rightarrow> 16 word" where
  "port self =
     (if sa_family self = AF_INET then ntohs (sin_port self)
      else if sa_family self = AF_INET6 then ntohs (sin6_port self)
      else 0)"

definition setPort :: "SockAddr \<Rightarrow> 16 word \<Rightarrow> error + SockAddr" where
  "setPort self p =
     (if sa_family self = AF_INET then Inr (self\<lparr>sin_port := htons p\<rparr>)
      else if sa_family self = AF_INET6 then Inr (self\<lparr>sin6_port := htons p\<rparr>)
      else Inl (logic_error ''SockAddr: set family before port''))"

definition isAny :: "SockAddr \<Rightarrow> bool" where
  "isAny self =
     (if sa_family self = AF_INET then sin_addr self = htonl INADDR_ANY
      else if sa_family self = AF_INET6 then IN6_IS_ADDR_UNSPECIFIED (sin6_addr self)
      else False)"

definition isLO :: "SockAddr \<Rightarrow> bool" where
  "isLO self =
     (if sa_family self = AF_INET then sin_addr self = htonl INADDR_LOOPBACK
      else if sa_family self = AF_INET6 then IN6_IS_ADDR_LOOPBACK (sin6_addr self)
      else False)"

text \<open>
  \<open>SockAddr::map4to6\<close>. \<open>ret\<close> starts as the default-constructed value; the \<open>memcpy\<close>
  writes the four bytes of \<open>sin_addr.s_addr\<close> to \<open>s6_addr[12..15]\<close>.
\<close>

definition map4to6 :: "SockAddr \<Rightarrow> error + SockAddr" where
  "map4to6 self =
     (case SockAddr_af AF_UNSPEC of Inl e \<Rightarrow> Inl e | Inr ret \<Rightarrow>
        if family self = AF_INET then
          (case sin_addr self of (a, b, c, d) \<Rightarrow>
             Inr (ret\<lparr>sa_family := AF_INET6,
                      sin6_addr := (sin6_addr ret)[10 := 0xff, 11 := 0xff,
                                                   12 := a, 13 := b, 14 := c, 15 := d],
                      sin6_port := sin_port self\<rparr>))
        else if family self = AF_INET6 then Inr self
        else Inl (logic_error ''Invalid address family''))"

text \<open>
  \<open>SockAddr::any\<close> and \<open>SockAddr::loopback\<close>. The parameter \<open>port\<close> is an
  \<open>unsigned\<close>; \<open>htons\<close> takes its low 16 bits.
\<close>

definition any :: "int \<Rightarrow> 32 word \<Rightarrow> error + SockAddr" where
  "any af p =
     (case SockAddr_af af of Inl e \<Rightarrow> Inl e | Inr ret \<Rightarrow>
        if af = AF_INET then
          Inr (ret\<lparr>sin_addr := htonl INADDR_ANY, sin_port := htons (ucast p)\<rparr>)
        else if af = AF_INET6 then
          Inr (ret\<lparr>sin6_addr := IN6ADDR_ANY_INIT, sin6_port := htons (ucast p)\<rparr>)
        else Inl (invalid_argument ''Unsupported address family''))"

definition loopback :: "int \<Rightarrow> 32 word \<Rightarrow> error + SockAddr" where
  "loopback af p =
     (case SockAddr_af af of Inl e \<Rightarrow> Inl e | Inr ret \<Rightarrow>
        if af = AF_INET then
          Inr (ret\<lparr>sin_addr := htonl INADDR_LOOPBACK, sin_port := htons (ucast p)\<rparr>)
        else if af = AF_INET6 then
          Inr (ret\<lparr>sin6_addr := IN6ADDR_LOOPBACK_INIT, sin6_port := htons (ucast p)\<rparr>)
        else Inl (invalid_argument ''Unsupported address family''))"

subsection \<open>Escaping of text in messages\<close>

text \<open>
  The output operator of \<open>detail::Escaper\<close>, which \<open>escape(name)\<close> puts into every
  message: the C escapes for the control characters, backslash and the two quotes, the
  character itself when it is printable, and \<open>\xNN\<close> (two lower-case hexadecimal
  digits) otherwise. \<open>CHR 0x5C\<close> is the backslash, \<open>CHR 0x27\<close> the single quote
  and \<open>CHR 0x22\<close> the double quote.
\<close>

definition hex_digit :: "nat \<Rightarrow> char" where
  "hex_digit d = ''0123456789abcdef'' ! d"

definition escape_char :: "char \<Rightarrow> string" where
  "escape_char c =
     (if c = CHR 0x07 then [CHR 0x5C, CHR ''a'']
      else if c = CHR 0x08 then [CHR 0x5C, CHR ''b'']
      else if c = CHR 0x0C then [CHR 0x5C, CHR ''f'']
      else if c = CHR 0x0A then [CHR 0x5C, CHR ''n'']
      else if c = CHR 0x0D then [CHR 0x5C, CHR ''r'']
      else if c = CHR 0x09 then [CHR 0x5C, CHR ''t'']
      else if c = CHR 0x0B then [CHR 0x5C, CHR ''v'']
      else if c = CHR 0x5C then [CHR 0x5C, CHR 0x5C]
      else if c = CHR 0x27 then [CHR 0x5C, CHR 0x27]
      else if c = CHR 0x22 then [CHR 0x5C, CHR 0x22]
      else if (32 :: nat) \<le> of_char c \<and> (of_char c :: nat) \<le> 126 then [c]
      else [CHR 0x5C, CHR ''x'', hex_digit (of_char c div 16), hex_digit (of_char c mod 16)])"

definition escape :: "string \<Rightarrow> string" where
  "escape s = concat (map escape_char s)"

text \<open>
  The text of a message \<^verbatim>\<open>SB()<<"msg \""<<escape(name)<<"\""\<close>: \<open>msg\<close>, then the
  escaped name between double quotes.
\<close>

definition quoted :: "string \<Rightarrow> string \<Rightarrow> string" where
  "quoted msg name = msg @ [CHR 0x22] @ escape name @ [CHR 0x22]"

subsection \<open>The integer parser \<open>parseTo<uint64_t>\<close>\<close>

text \<open>
  \<open>std::stoull(s, &idx, 0)\<close> of the C++ library, as \<open>strtoull\<close> with base 0 defines it:
  leading white space is skipped, then an optional sign, then the base is read off the
  prefix (\<open>0x\<close> or \<open>0X\<close> before a hexadecimal digit: 16; a leading \<open>0\<close>: 8;
  otherwise 10), then the longest run of digits of that base is the number. No digit at
  all is \<open>std::invalid_argument\<close>, a magnitude above \<open>2^64 - 1\<close> is
  \<open>std::out_of_range\<close>, and a minus sign negates the value modulo \<open>2^64\<close>. The result
  is the value and the index \<open>idx\<close> of the first character not consumed.
\<close>

definition isspace :: "char \<Rightarrow> bool" where
  "isspace c = (c = CHR '' '' \<or> c = CHR 0x09 \<or> c = CHR 0x0A \<or> c = CHR 0x0B \<or>
                c = CHR 0x0C \<or> c = CHR 0x0D)"

text \<open>The value of a character as a digit; 36 for a character that is no digit.\<close>

definition digit_of :: "char \<Rightarrow> nat" where
  "digit_of c =
     (let n = (of_char c :: nat) in
      if 48 \<le> n \<and> n \<le> 57 then n - 48
      else if 97 \<le> n \<and> n \<le> 122 then n - 87
      else if 65 \<le> n \<and> n \<le> 90 then n - 55
      else 36)"

definition is_digit :: "nat \<Rightarrow> char \<Rightarrow> bool" where
  "is_digit base c = (digit_of c < base)"

definition digits_value :: "nat \<Rightarrow> string \<Rightarrow> nat" where
  "digits_value base ds = foldl (\<lambda>acc c. acc * base + digit_of c) 0 ds"

datatype stoull_exn = std_invalid_argument | std_out_of_range

definition stoull :: "string \<Rightarrow> stoull_exn + (64 word \<times> nat)" where
  "stoull s =
     (let ws = takeWhile isspace s;
          s1 = dropWhile isspace s;
          neg = (case s1 of c # _ \<Rightarrow> c = CHR ''-'' | [] \<Rightarrow> False);
          nsign = (case s1 of c # _ \<Rightarrow> if c = CHR ''-'' \<or> c = CHR ''+'' then 1 else 0
                   | [] \<Rightarrow> (0 :: nat));
          s2 = drop nsign s1;
          hex = (case s2 of c0 # c1 # c2 # _ \<Rightarrow>
                   c0 = CHR ''0'' \<and> (c1 = CHR ''x'' \<or> c1 = CHR ''X'') \<and> is_digit 16 c2
                 | _ \<Rightarrow> False);
          base = (if hex then 16
                  else (case s2 of c0 # _ \<Rightarrow> if c0 = CHR ''0'' then 8 else 10
                        | [] \<Rightarrow> (10 :: nat)));
          npre = (if hex then 2 else (0 :: nat));
          ds = takeWhile (is_digit base) (drop npre s2);
          v = digits_value base ds
      in if ds = [] then Inl std_invalid_argument
         else if v > 2 ^ 64 - 1 then Inl std_out_of_range
         else Inr (if neg then - word_of_nat v else word_of_nat v,
                   length ws + nsign + npre + length ds))"

definition parseTo_uint64 :: "string \<Rightarrow> error + 64 word" where
  "parseTo_uint64 s =
     (case stoull s of
        Inl std_invalid_argument \<Rightarrow> Inl (NoConvert (quoted ''Invalid input : '' s))
      | Inl std_out_of_range \<Rightarrow> Inl (NoConvert (quoted ''Out of range : '' s))
      | Inr (ret, idx) \<Rightarrow>
          (let idx' = idx + length (takeWhile isspace (drop idx s)) in
           if idx' < length s
           then Inl (NoConvert (quoted ''Extraneous characters after integer: '' s))
           else Inr ret))"

subsection \<open>The external address converters\<close>

text \<open>
  \<open>evutil_inet_pton\<close> and \<open>evutil_inet_ntop\<close> belong to libevent. They are
  parameters of the model: a presentation-to-binary and a binary-to-presentation
  function for each family, \<open>None\<close> where the conversion fails. \<open>ntop4_failed_buf\<close>
  is the text that the IPv4 branch of the output operator finds in its local array
  \<open>buf\<close> after a failed conversion; the operator never initialises that array.
\<close>

record extern =
  inet_pton4 :: "string \<Rightarrow> in_addr_t option"
  inet_pton6 :: "string \<Rightarrow> in6_addr option"
  inet_ntop4 :: "in_addr_t \<Rightarrow> string option"
  inet_ntop6 :: "in6_addr \<Rightarrow> string option"
  ntop4_failed_buf :: string

definition INET_ADDRSTRLEN :: nat where "INET_ADDRSTRLEN = 16"
definition INET6_ADDRSTRLEN :: nat where "INET6_ADDRSTRLEN = 46"

text \<open>
  \<open>evutil_inet_pton(af, src, dst) > 0\<close>: the binary address is written to the member
  that \<open>setAddress\<close> has chosen as destination (\<open>in.sin_addr.s_addr\<close> for \<open>AF_INET\<close>,
  \<open>in6.sin6_addr\<close> for \<open>AF_INET6\<close>).
\<close>

definition evutil_inet_pton :: "extern \<Rightarrow> int \<Rightarrow> string \<Rightarrow> SockAddr \<Rightarrow> SockAddr option" where
  "evutil_inet_pton E af src temp =
     (if af = AF_INET then map_option (\<lambda>a. temp\<lparr>sin_addr := a\<rparr>) (inet_pton4 E src)
      else if af = AF_INET6 then map_option (\<lambda>a. temp\<lparr>sin6_addr := a\<rparr>) (inet_pton6 E src)
      else None)"

text \<open>
  \<open>evutil_inet_ntop(af, src, dst, len)\<close>: the text with its terminating NUL has to fit
  into the \<open>len\<close> bytes of \<open>dst\<close>, else the call fails.
\<close>

definition evutil_inet_ntop :: "('a \<Rightarrow> string option) \<Rightarrow> 'a \<Rightarrow> nat \<Rightarrow> string option" where
  "evutil_inet_ntop conv src len =
     (case conv src of None \<Rightarrow> None
      | Some s \<Rightarrow> if length s < len then Some s else None)"

subsection \<open>The parser \<open>SockAddr::setAddress\<close>\<close>

text \<open>
  A pointer into \<open>name\<close> is the index it points at, \<open>NULL\<close> is \<open>None\<close>:
  \<open>strchr\<close> finds the first occurrence and \<open>strrchr\<close> the last.
\<close>

fun strchr :: "string \<Rightarrow> char \<Rightarrow> nat option" where
  "strchr [] c = None"
| "strchr (x # xs) c = (if x = c then Some 0 else map_option Suc (strchr xs c))"

fun strrchr :: "string \<Rightarrow> char \<Rightarrow> nat option" where
  "strrchr [] c = None"
| "strrchr (x # xs) c =
     (case strrchr xs c of Some i \<Rightarrow> Some (Suc i)
      | None \<Rightarrow> if x = c then Some 0 else None)"

text \<open>
  The first half of \<open>setAddress\<close>, up to the call of the converter: the family, the
  address text \<open>addr\<close> and the port text \<open>port\<close> (\<open>None\<close> for \<open>nullptr\<close>).
  \<open>addrlen\<close> is a \<open>size_t\<close>: the difference \<open>closeb-openb-1u\<close> wraps around when \<open>]\<close>
  comes before \<open>[\<close>. \<open>sizeof(scratch)\<close> is \<open>INET6_ADDRSTRLEN+1\<close>.
\<close>

definition setAddress_parts :: "string \<Rightarrow> error + (int \<times> string \<times> string option)" where
  "setAddress_parts name =
     (let firstc = strchr name CHR '':'';
          lastc = strrchr name CHR '':'';
          openb = strchr name CHR ''['';
          closeb = strrchr name CHR '']''
      in
      if (openb = None) \<noteq> (closeb = None) then
        Inl (runtime_error (quoted ''IPv6 with mismatched brackets '' name))
      else if firstc = None \<and> openb = None then
        Inr (AF_INET, name, None)
      else if firstc \<noteq> None \<and> firstc = lastc \<and> openb = None then
        (let addrlen = the firstc in
         if addrlen \<ge> INET6_ADDRSTRLEN + 1 then
           Inl (runtime_error (quoted ''IPv4 address too long '' name))
         else Inr (AF_INET, take addrlen name, Some (drop (the lastc + 1) name)))
      else if firstc \<noteq> None \<and> firstc \<noteq> lastc \<and> openb = None then
        Inr (AF_INET6, name, None)
      else if openb \<noteq> None then
        (let addrlen = nat ((int (the closeb) - int (the openb) - 1) mod 2 ^ 64) in
         if addrlen \<ge> INET6_ADDRSTRLEN + 1 then
           Inl (runtime_error (quoted ''IPv6 address too long '' name))
         else Inr (AF_INET6, take addrlen (drop (the openb + 1) name),
                   (case lastc of
                      Some l \<Rightarrow> if l > the closeb then Some (drop (l + 1) name) else None
                    | None \<Rightarrow> None)))
      else Inl (runtime_error (quoted ''Invalid IP address form '' name)))"

text \<open>
  \<open>setAddress\<close> itself. The result is the new value of \<open>*this\<close>; an exception leaves
  \<open>*this\<close> as it was. \<open>setPort\<close> takes an \<open>unsigned short\<close>, so the \<open>uint64_t\<close> that
  \<open>parseTo\<close> returns is converted to its low 16 bits.
\<close>

definition setAddress :: "extern \<Rightarrow> string \<Rightarrow> 16 word \<Rightarrow> error + SockAddr" where
  "setAddress E name defport =
     (case setAddress_parts name of
        Inl e \<Rightarrow> Inl e
      | Inr (af, addr, port_text) \<Rightarrow>
          (case SockAddr_af AF_UNSPEC of
             Inl e \<Rightarrow> Inl e
           | Inr temp0 \<Rightarrow>
               (case evutil_inet_pton E af addr (temp0\<lparr>sa_family := af\<rparr>) of
                  None \<Rightarrow> Inl (runtime_error (quoted ''Not a valid IP address '' name))
                | Some temp \<Rightarrow>
                    (case port_text of
                       Some p \<Rightarrow>
                         (case parseTo_uint64 p of
                            Inl e \<Rightarrow> Inl e
                          | Inr n \<Rightarrow> setPort temp (ucast n))
                     | None \<Rightarrow> setPort temp defport))))"

subsection \<open>The output operator\<close>

text \<open>Decimal output of an unsigned integer, as the stream prints it.\<close>

definition dec_digit :: "nat \<Rightarrow> char" where
  "dec_digit d = ''0123456789'' ! d"

fun dec :: "nat \<Rightarrow> string" where
  "dec n = (if n < 10 then [dec_digit n] else dec (n div 10) @ [dec_digit (n mod 10)])"

declare dec.simps [simp del]

text \<open>
  \<open>operator<<(std::ostream&, const SockAddr&)\<close> on a fresh stream, which is
  \<open>SockAddr::tostring\<close>. \<open>buf[sizeof(buf)-1] = '\0'\<close> cuts the text at the last byte
  of the buffer. In the \<open>AF_INET\<close> branch \<open>strm<<buf\<close> follows the \<open>if\<close> and runs
  on both paths.
\<close>

definition tostring :: "extern \<Rightarrow> SockAddr \<Rightarrow> string" where
  "tostring E addr =
     (if sa_family addr = AF_INET then
        (let r = evutil_inet_ntop (inet_ntop4 E) (sin_addr addr) (INET_ADDRSTRLEN + 1);
             buf = (case r of Some t \<Rightarrow> take INET_ADDRSTRLEN t | None \<Rightarrow> ntop4_failed_buf E)
         in (case r of Some _ \<Rightarrow> [] | None \<Rightarrow> ''<???>'') @ buf @
            (if ntohs (sin_port addr) \<noteq> 0
             then '':'' @ dec (unat (ntohs (sin_port addr))) else []))
      else if sa_family addr = AF_INET6 then
        (case evutil_inet_ntop (inet_ntop6 E) (sin6_addr addr) (INET6_ADDRSTRLEN + 1) of
           Some t \<Rightarrow> ''['' @ take INET6_ADDRSTRLEN t @ '']''
         | None \<Rightarrow> ''<???>'') @
        (if sin6_scope_id addr \<noteq> 0 then ''%'' @ dec (unat (sin6_scope_id addr)) else []) @
        (if ntohs (sin6_port addr) \<noteq> 0
         then '':'' @ dec (unat (ntohs (sin6_port addr))) else [])
      else if sa_family addr = AF_UNSPEC then ''<>''
      else ''<???>'')"

subsection \<open>A sample converter\<close>

text \<open>
  A finite table of presentation forms, standing for the external converters where a
  statement is evaluated at a concrete input.
\<close>

definition sample_inet :: extern where
  "sample_inet =
     \<lparr>inet_pton4 = (\<lambda>s. if s = ''127.0.0.1'' then Some (127, 0, 0, 1)
                          else if s = ''1.2.3.4'' then Some (1, 2, 3, 4) else None),
      inet_pton6 = (\<lambda>s. if s = ''::1'' then Some IN6ADDR_LOOPBACK_INIT else None),
      inet_ntop4 = (\<lambda>a. if a = (127, 0, 0, 1) then Some ''127.0.0.1''
                          else if a = (1, 2, 3, 4) then Some ''1.2.3.4'' else None),
      inet_ntop6 = (\<lambda>a. if a = IN6ADDR_LOOPBACK_INIT then Some ''::1'' else None),
      ntop4_failed_buf = ''junk''\<rparr>"

section \<open>Properties\<close>

subsection \<open>Byte order and constants\<close>

lemma ntohs_htons: "ntohs (htons p) = p"
  unfolding ntohs_def htons_def
  by (simp, rule bit_word_eqI) (auto simp add: bit_simps)

lemma htonl_loopback: "htonl INADDR_LOOPBACK = (127, 0, 0, 1)"
  by (simp add: htonl_def INADDR_LOOPBACK_def)

lemma htonl_any: "htonl INADDR_ANY = (0, 0, 0, 0)"
  by (simp add: htonl_def INADDR_ANY_def)

lemma ucast_unsigned_port: "(ucast (ucast (p :: 16 word) :: 32 word) :: 16 word) = p"
  by (rule bit_word_eqI) (auto simp add: bit_simps)

lemma s6_addr_mapped:
  "(replicate 16 (0 :: byte))[10 := 0xff, 11 := 0xff, 12 := a, 13 := b, 14 := c, 15 := d] =
     [0, 0, 0, 0, 0, 0, 0, 0, 0, 0, 0xff, 0xff, a, b, c, d]"
  by (simp add: eval_nat_numeral)

subsection \<open>\<open>map4to6\<close>, \<open>any\<close> and \<open>loopback\<close>\<close>

text \<open>
  C5. \<open>map4to6\<close> of an IPv4 value is an IPv6 value whose sixteen address bytes are ten
  zero bytes, \<open>0xff\<close>, \<open>0xff\<close> and the four bytes of the IPv4 address, with the same
  port and scope id 0; of an IPv6 value it is that value; of a value of family
  \<open>AF_UNSPEC\<close> it is the exception \<open>std::logic_error("Invalid address family")\<close>.
\<close>

theorem map4to6_spec:
  "(sa_family v = AF_INET \<longrightarrow>
      (\<exists>w. map4to6 v = Inr w \<and> sa_family w = AF_INET6 \<and>
           sin6_addr w = [0, 0, 0, 0, 0, 0, 0, 0, 0, 0, 0xff, 0xff,
                          fst (sin_addr v), fst (snd (sin_addr v)),
                          fst (snd (snd (sin_addr v))), snd (snd (snd (sin_addr v)))] \<and>
           port w = port v \<and> sin6_scope_id w = 0)) \<and>
   (sa_family v = AF_INET6 \<longrightarrow> map4to6 v = Inr v) \<and>
   (sa_family v = AF_UNSPEC \<longrightarrow> map4to6 v = Inl (logic_error ''Invalid address family''))"
  by (auto simp add: map4to6_def SockAddr_af_def family_def port_def store0_def AF_defs
      s6_addr_mapped split: prod.splits)

theorem map4to6_spec_witness:
  "sa_family (store0\<lparr>sa_family := AF_INET, sin_port := htons 9000, sin_addr := (127, 0, 0, 1)\<rparr>)
     = AF_INET \<and>
   (\<exists>w. map4to6 (store0\<lparr>sa_family := AF_INET, sin_port := htons 9000,
                          sin_addr := (127, 0, 0, 1)\<rparr>) = Inr w \<and>
        sin6_addr w = [0, 0, 0, 0, 0, 0, 0, 0, 0, 0, 0xff, 0xff, 127, 0, 0, 1] \<and>
        port w = 9000 \<and> sin6_scope_id w = 0) \<and>
   sa_family (store0\<lparr>sa_family := AF_INET6, sin6_scope_id := 3\<rparr>) = AF_INET6 \<and>
   map4to6 (store0\<lparr>sa_family := AF_INET6, sin6_scope_id := 3\<rparr>) =
     Inr (store0\<lparr>sa_family := AF_INET6, sin6_scope_id := 3\<rparr>) \<and>
   sa_family store0 = AF_UNSPEC \<and>
   map4to6 store0 = Inl (logic_error ''Invalid address family'')"
  using map4to6_spec [of "store0\<lparr>sa_family := AF_INET, sin_port := htons 9000,
                                 sin_addr := (127, 0, 0, 1)\<rparr>"]
    map4to6_spec [of "store0\<lparr>sa_family := AF_INET6, sin6_scope_id := 3\<rparr>"]
    map4to6_spec [of store0]
  by (auto simp add: port_def ntohs_htons store0_def AF_defs)

text \<open>
  C6. For an IPv4 value with the address 127.0.0.1, whatever its port, \<open>isLO\<close> is true.
  Its \<open>map4to6\<close> image is the \<open>AF_INET6\<close> value with the address
  \<open>::ffff:127.0.0.1\<close> and the same port, and \<open>isLO\<close> of that value is false: the
  mapped address is not the IPv6 loopback \<open>::1\<close>.
\<close>

theorem mapped_loopback_not_isLO:
  "sa_family v = AF_INET \<Longrightarrow> sin_addr v = (127, 0, 0, 1) \<Longrightarrow>
   isLO v \<and>
   (\<exists>w. map4to6 v = Inr w \<and> sa_family w = AF_INET6 \<and>
        sin6_addr w = [0, 0, 0, 0, 0, 0, 0, 0, 0, 0, 0xff, 0xff, 127, 0, 0, 1] \<and>
        port w = port v \<and> \<not> isLO w)"
  by (auto simp add: isLO_def map4to6_def SockAddr_af_def family_def port_def store0_def
      htonl_loopback IN6_IS_ADDR_LOOPBACK_def IN6ADDR_LOOPBACK_INIT_def AF_defs s6_addr_mapped)

theorem mapped_loopback_not_isLO_witness:
  "sa_family (store0\<lparr>sa_family := AF_INET, sin_port := htons 9000, sin_addr := (127, 0, 0, 1)\<rparr>)
     = AF_INET \<and>
   sin_addr (store0\<lparr>sa_family := AF_INET, sin_port := htons 9000, sin_addr := (127, 0, 0, 1)\<rparr>)
     = (127, 0, 0, 1) \<and>
   isLO (store0\<lparr>sa_family := AF_INET, sin_port := htons 9000, sin_addr := (127, 0, 0, 1)\<rparr>) \<and>
   (\<exists>w. map4to6 (store0\<lparr>sa_family := AF_INET, sin_port := htons 9000,
                          sin_addr := (127, 0, 0, 1)\<rparr>) = Inr w \<and>
        sa_family w = AF_INET6 \<and>
        sin6_addr w = [0, 0, 0, 0, 0, 0, 0, 0, 0, 0, 0xff, 0xff, 127, 0, 0, 1] \<and>
        port w = 9000 \<and> \<not> isLO w)"
  using mapped_loopback_not_isLO [of "store0\<lparr>sa_family := AF_INET, sin_port := htons 9000,
                                             sin_addr := (127, 0, 0, 1)\<rparr>"]
  by (simp add: port_def ntohs_htons AF_defs)

text \<open>
  C9. For the family \<open>AF_INET\<close> or \<open>AF_INET6\<close> and a 16-bit port \<open>p\<close>, \<open>any\<close> returns
  a value with \<open>isAny\<close> and port \<open>p\<close>, and \<open>loopback\<close> a value with \<open>isLO\<close> and port
  \<open>p\<close>. For every other family argument, \<open>AF_UNSPEC\<close> included, both throw
  \<open>std::invalid_argument("Unsupported address family")\<close>, whatever the port argument.
\<close>

theorem any_loopback_spec:
  "(af = AF_INET \<or> af = AF_INET6 \<longrightarrow>
      (\<exists>v. any af (ucast p) = Inr v \<and> isAny v \<and> port v = (p :: 16 word)) \<and>
      (\<exists>v. loopback af (ucast p) = Inr v \<and> isLO v \<and> port v = p)) \<and>
   (af \<noteq> AF_INET \<and> af \<noteq> AF_INET6 \<longrightarrow>
      any af q = Inl (invalid_argument ''Unsupported address family'') \<and>
      loopback af q = Inl (invalid_argument ''Unsupported address family''))"
  by (auto simp add: any_def loopback_def SockAddr_af_def isAny_def isLO_def port_def
      IN6_IS_ADDR_UNSPECIFIED_def IN6_IS_ADDR_LOOPBACK_def ntohs_htons ucast_unsigned_port
      AF_defs)

theorem any_loopback_spec_witness:
  "(\<exists>v. any AF_INET 5075 = Inr v \<and> isAny v \<and> port v = 5075) \<and>
   (\<exists>v. loopback AF_INET6 5075 = Inr v \<and> isLO v \<and> port v = 5075) \<and>
   any 99 0 = Inl (invalid_argument ''Unsupported address family'') \<and>
   loopback AF_UNSPEC 0 = Inl (invalid_argument ''Unsupported address family'')"
  using any_loopback_spec [of AF_INET 5075 0] any_loopback_spec [of AF_INET6 5075 0]
    any_loopback_spec [of 99 0 0] any_loopback_spec [of AF_UNSPEC 0 0]
  by (simp add: AF_defs)

subsection \<open>Pointers into the name\<close>

lemma strchr_None: "strchr s c = None \<longleftrightarrow> c \<notin> set s"
  by (induction s) auto

lemma strrchr_None: "strrchr s c = None \<longleftrightarrow> c \<notin> set s"
  by (induction s) (auto split: option.splits)

lemma strchr_first: "c \<in> set s \<Longrightarrow> strchr s c = Some (length (takeWhile (\<lambda>x. x \<noteq> c) s))"
  by (induction s) auto

lemma strchr_append: "c \<notin> set pre \<Longrightarrow> strchr (pre @ c # rest) c = Some (length pre)"
  by (induction pre) auto

lemma strrchr_append:
  "strrchr (xs @ ys) c =
     (case strrchr ys c of Some i \<Rightarrow> Some (length xs + i) | None \<Rightarrow> strrchr xs c)"
  by (induction xs) (auto split: option.splits)

lemma strrchr_last: "c \<notin> set post \<Longrightarrow> strrchr (xs @ c # post) c = Some (length xs)"
  by (simp add: strrchr_append strrchr_None [THEN iffD2])

lemma strrchr_less: "strrchr s c = Some i \<Longrightarrow> i < length s"
  by (induction s arbitrary: i) (auto split: option.splits if_splits)

lemma map_option_Suc_eq: "map_option Suc a = map_option Suc b \<longleftrightarrow> a = b"
  by (cases a; cases b) simp_all

lemma strchr_eq_strrchr: "strchr s c = strrchr s c \<longleftrightarrow> count_list s c \<le> 1"
proof (induction s)
  case Nil
  show ?case by simp
next
  case (Cons x xs)
  show ?case
  proof (cases "x = c")
    case True
    with strrchr_None [of xs c] show ?thesis
      by (cases "strrchr xs c") (auto simp add: count_list_0_iff)
  next
    case False
    have "strrchr (x # xs) c = map_option Suc (strrchr xs c)"
      using False by (simp split: option.splits)
    with False Cons show ?thesis
      by (simp add: map_option_Suc_eq)
  qed
qed


lemma parts_mismatched:
  "(CHR ''['' \<in> set name) \<noteq> (CHR '']'' \<in> set name) \<Longrightarrow>
   setAddress_parts name = Inl (runtime_error (quoted ''IPv6 with mismatched brackets '' name))"
  using strchr_None [of name "CHR ''[''"] strrchr_None [of name "CHR '']''"]
  by (auto simp add: setAddress_parts_def Let_def)

lemma parts_plain4:
  "CHR '':'' \<notin> set name \<Longrightarrow> CHR ''['' \<notin> set name \<Longrightarrow> CHR '']'' \<notin> set name \<Longrightarrow>
   setAddress_parts name = Inr (AF_INET, name, None)"
  by (simp add: setAddress_parts_def Let_def strchr_None [THEN iffD2] strrchr_None [THEN iffD2])

lemma parts_port4:
  assumes "count_list name CHR '':'' = 1" "CHR ''['' \<notin> set name" "CHR '']'' \<notin> set name"
  shows "setAddress_parts name =
     (if length (takeWhile (\<lambda>x. x \<noteq> CHR '':'') name) \<ge> INET6_ADDRSTRLEN + 1
      then Inl (runtime_error (quoted ''IPv4 address too long '' name))
      else Inr (AF_INET, takeWhile (\<lambda>x. x \<noteq> CHR '':'') name,
                Some (tl (dropWhile (\<lambda>x. x \<noteq> CHR '':'') name))))"
proof -
  let ?n = "length (takeWhile (\<lambda>x. x \<noteq> CHR '':'') name)"
  have mem: "CHR '':'' \<in> set name"
    using assms(1) count_list_0_iff [of name "CHR '':''"] by auto
  then have first: "strchr name CHR '':'' = Some ?n"
    by (rule strchr_first)
  have last: "strrchr name CHR '':'' = Some ?n"
    using strchr_eq_strrchr [of name "CHR '':''"] assms(1) first by simp
  have t: "take ?n name = takeWhile (\<lambda>x. x \<noteq> CHR '':'') name"
    by (simp add: takeWhile_eq_take [symmetric])
  have d: "drop (Suc ?n) name = tl (dropWhile (\<lambda>x. x \<noteq> CHR '':'') name)"
    by (simp add: dropWhile_eq_drop drop_Suc tl_drop)
  show ?thesis
    using assms(2,3) first last t d
    by (simp add: setAddress_parts_def Let_def strchr_None [THEN iffD2]
        strrchr_None [THEN iffD2])
qed

lemma parts_bare6:
  assumes "count_list name CHR '':'' > 1" "CHR ''['' \<notin> set name" "CHR '']'' \<notin> set name"
  shows "setAddress_parts name = Inr (AF_INET6, name, None)"
proof -
  have mem: "CHR '':'' \<in> set name"
    using assms(1) count_list_0_iff [of name "CHR '':''"] by auto
  then obtain f where first: "strchr name CHR '':'' = Some f"
    using strchr_None [of name "CHR '':''"] by auto
  have ne: "strchr name CHR '':'' \<noteq> strrchr name CHR '':''"
    using strchr_eq_strrchr [of name "CHR '':''"] assms(1) by simp
  show ?thesis
    using assms(2,3) first ne
    by (simp add: setAddress_parts_def Let_def strchr_None [THEN iffD2]
        strrchr_None [THEN iffD2])
qed

lemma strrchr_colon_after_bracket:
  "strrchr (CHR '']'' # post) CHR '':'' = map_option Suc (strrchr post CHR '':'')"
  by (simp split: option.splits)

lemma drop_length_append: "drop (length xs + n) (xs @ ys) = drop n ys"
  by simp

lemma parts_bracket:
  assumes pre: "CHR ''['' \<notin> set pre" and post: "CHR '']'' \<notin> set post"
  shows "setAddress_parts (pre @ CHR ''['' # mid @ CHR '']'' # post) =
     (if length mid mod 2 ^ 64 \<ge> INET6_ADDRSTRLEN + 1
      then Inl (runtime_error (quoted ''IPv6 address too long ''
                  (pre @ CHR ''['' # mid @ CHR '']'' # post)))
      else Inr (AF_INET6, take (length mid mod 2 ^ 64) (mid @ CHR '']'' # post),
                (case strrchr post CHR '':'' of Some k \<Rightarrow> Some (drop (Suc k) post)
                 | None \<Rightarrow> None)))"
proof -
  define name where "name = pre @ CHR ''['' # mid @ CHR '']'' # post"
  define ob where "ob = length pre"
  define cb where "cb = length pre + 1 + length mid"
  define m where "m = length mid mod 2 ^ 64"
  have openb: "strchr name CHR ''['' = Some ob"
    unfolding name_def ob_def using pre by (rule strchr_append)
  have closeb: "strrchr name CHR '']'' = Some cb"
    unfolding name_def cb_def
    using strrchr_last [OF post, of "pre @ CHR ''['' # mid"] by simp
  have len: "nat ((int cb - int ob - 1) mod 2 ^ 64) = m"
    unfolding cb_def ob_def m_def by (simp add: nat_mod_distrib nat_power_eq)
  have dr: "drop (ob + 1) name = mid @ CHR '']'' # post"
    unfolding name_def ob_def by simp
  have split_last: "strrchr name CHR '':'' =
      (case strrchr post CHR '':'' of Some k \<Rightarrow> Some (cb + Suc k)
       | None \<Rightarrow> strrchr (pre @ CHR ''['' # mid) CHR '':'')"
    unfolding name_def cb_def
    using strrchr_append [of "pre @ CHR ''['' # mid" "CHR '']'' # post" "CHR '':''"]
    by (simp add: strrchr_colon_after_bracket split: option.splits)
  have port_text: "drop (cb + Suc k + 1) name = drop (Suc k) post" for k
    unfolding name_def cb_def
    using drop_length_append [of "pre @ CHR ''['' # mid @ [CHR '']'']" "Suc k" post]
    by (simp add: add.commute add.left_commute)
  have port_part: "(case strrchr name CHR '':'' of
        Some l \<Rightarrow> if l > cb then Some (drop (l + 1) name) else None | None \<Rightarrow> None) =
      (case strrchr post CHR '':'' of Some k \<Rightarrow> Some (drop (Suc k) post) | None \<Rightarrow> None)"
  proof (cases "strrchr post CHR '':''")
    case None
    show ?thesis
    proof (cases "strrchr (pre @ CHR ''['' # mid) CHR '':''")
      case inner: None
      with None split_last show ?thesis by simp
    next
      case (Some l)
      from strrchr_less [OF this] have "\<not> l > cb" by (simp add: cb_def)
      with None Some split_last show ?thesis by simp
    qed
  next
    case (Some k)
    with split_last port_text [of k] show ?thesis by simp
  qed
  have "setAddress_parts name =
     (if m \<ge> INET6_ADDRSTRLEN + 1
      then Inl (runtime_error (quoted ''IPv6 address too long '' name))
      else Inr (AF_INET6, take m (mid @ CHR '']'' # post),
                (case strrchr post CHR '':'' of Some k \<Rightarrow> Some (drop (Suc k) post)
                 | None \<Rightarrow> None)))"
    unfolding setAddress_parts_def Let_def
    by (simp only: openb closeb option.sel len dr port_part) simp
  then show ?thesis
    by (simp only: name_def m_def)
qed

subsection \<open>The forms of a name\<close>

text \<open>
  C3. A name that contains \<open>[\<close> but no \<open>]\<close>, or \<open>]\<close> but no \<open>[\<close>, is rejected
  with \<open>std::runtime_error("IPv6 with mismatched brackets ...")\<close>, whatever its colons
  and whatever the converters would say of its address or port text; \<open>"[::1"\<close> and
  \<open>"::1]"\<close> are two such names.
\<close>

theorem setAddress_mismatched_brackets:
  "(CHR ''['' \<in> set name) \<noteq> (CHR '']'' \<in> set name) \<Longrightarrow>
   setAddress E name defport =
     Inl (runtime_error (quoted ''IPv6 with mismatched brackets '' name))"
  by (simp add: setAddress_def parts_mismatched)

theorem setAddress_mismatched_brackets_witness:
  "(CHR ''['' \<in> set ''[::1'') \<noteq> (CHR '']'' \<in> set ''[::1'') \<and>
   setAddress sample_inet ''[::1'' 0 =
     Inl (runtime_error (quoted ''IPv6 with mismatched brackets '' ''[::1'')) \<and>
   (CHR ''['' \<in> set ''::1]'') \<noteq> (CHR '']'' \<in> set ''::1]'') \<and>
   setAddress sample_inet ''::1]'' 0 =
     Inl (runtime_error (quoted ''IPv6 with mismatched brackets '' ''::1]''))"
  using setAddress_mismatched_brackets [of "''[::1''" sample_inet 0]
    setAddress_mismatched_brackets [of "''::1]''" sample_inet 0]
  by simp

text \<open>
  C2. The address and port text that \<open>setAddress\<close> hands on, by colons and brackets:
  no colon and no bracket, the whole name is the IPv4 text and there is no port text;
  exactly one colon and no bracket, the IPv4 text is what precedes the colon and the
  port text what follows it; more than one colon and no bracket, the whole name is the
  IPv6 text and there is no port text; a pair \<open>[\<close> ... \<open>]\<close> (the first \<open>[\<close> and the
  last \<open>]\<close>), the IPv6 text is what stands between them, and the port text is what
  follows the last colon after \<open>]\<close>, or absent when no colon follows \<open>]\<close>. In the
  second and the fourth form the address text goes through the buffer \<open>scratch\<close>, and
  one of more than \<open>INET6_ADDRSTRLEN\<close> characters is rejected as too long. The length
  of a name in memory is below \<open>2^64\<close>.
\<close>

theorem setAddress_parts_spec:
  "(CHR '':'' \<notin> set name \<and> CHR ''['' \<notin> set name \<and> CHR '']'' \<notin> set name \<longrightarrow>
      setAddress_parts name = Inr (AF_INET, name, None)) \<and>
   (count_list name CHR '':'' = 1 \<and> CHR ''['' \<notin> set name \<and> CHR '']'' \<notin> set name \<longrightarrow>
      setAddress_parts name =
        (if length (takeWhile (\<lambda>x. x \<noteq> CHR '':'') name) \<ge> INET6_ADDRSTRLEN + 1
         then Inl (runtime_error (quoted ''IPv4 address too long '' name))
         else Inr (AF_INET, takeWhile (\<lambda>x. x \<noteq> CHR '':'') name,
                   Some (tl (dropWhile (\<lambda>x. x \<noteq> CHR '':'') name))))) \<and>
   (count_list name CHR '':'' > 1 \<and> CHR ''['' \<notin> set name \<and> CHR '']'' \<notin> set name \<longrightarrow>
      setAddress_parts name = Inr (AF_INET6, name, None)) \<and>
   (CHR ''['' \<notin> set pre \<and> CHR '']'' \<notin> set post \<and> CHR '':'' \<notin> set post \<and>
    length mid < 2 ^ 64 \<longrightarrow>
      setAddress_parts (pre @ CHR ''['' # mid @ CHR '']'' # post) =
        (if length mid \<ge> INET6_ADDRSTRLEN + 1
         then Inl (runtime_error (quoted ''IPv6 address too long ''
                     (pre @ CHR ''['' # mid @ CHR '']'' # post)))
         else Inr (AF_INET6, mid, None))) \<and>
   (CHR ''['' \<notin> set pre \<and> CHR '']'' \<notin> set q \<and> CHR '']'' \<notin> set ptext \<and>
    CHR '':'' \<notin> set ptext \<and> length mid < 2 ^ 64 \<longrightarrow>
      setAddress_parts (pre @ CHR ''['' # mid @ CHR '']'' # q @ CHR '':'' # ptext) =
        (if length mid \<ge> INET6_ADDRSTRLEN + 1
         then Inl (runtime_error (quoted ''IPv6 address too long ''
                     (pre @ CHR ''['' # mid @ CHR '']'' # q @ CHR '':'' # ptext)))
         else Inr (AF_INET6, mid, Some ptext)))"
proof (intro conjI impI)
  assume "CHR '':'' \<notin> set name \<and> CHR ''['' \<notin> set name \<and> CHR '']'' \<notin> set name"
  then show "setAddress_parts name = Inr (AF_INET, name, None)"
    by (simp add: parts_plain4)
next
  assume "count_list name CHR '':'' = 1 \<and> CHR ''['' \<notin> set name \<and> CHR '']'' \<notin> set name"
  then show "setAddress_parts name =
        (if length (takeWhile (\<lambda>x. x \<noteq> CHR '':'') name) \<ge> INET6_ADDRSTRLEN + 1
         then Inl (runtime_error (quoted ''IPv4 address too long '' name))
         else Inr (AF_INET, takeWhile (\<lambda>x. x \<noteq> CHR '':'') name,
                   Some (tl (dropWhile (\<lambda>x. x \<noteq> CHR '':'') name))))"
    using parts_port4 [of name] by blast
next
  assume "count_list name CHR '':'' > 1 \<and> CHR ''['' \<notin> set name \<and> CHR '']'' \<notin> set name"
  then show "setAddress_parts name = Inr (AF_INET6, name, None)"
    by (simp add: parts_bare6)
next
  assume a: "CHR ''['' \<notin> set pre \<and> CHR '']'' \<notin> set post \<and> CHR '':'' \<notin> set post \<and>
    length mid < 2 ^ 64"
  then have "strrchr post CHR '':'' = None"
    by (simp add: strrchr_None)
  with a show "setAddress_parts (pre @ CHR ''['' # mid @ CHR '']'' # post) =
        (if length mid \<ge> INET6_ADDRSTRLEN + 1
         then Inl (runtime_error (quoted ''IPv6 address too long ''
                     (pre @ CHR ''['' # mid @ CHR '']'' # post)))
         else Inr (AF_INET6, mid, None))"
    by (simp add: parts_bracket)
next
  assume a: "CHR ''['' \<notin> set pre \<and> CHR '']'' \<notin> set q \<and> CHR '']'' \<notin> set ptext \<and>
    CHR '':'' \<notin> set ptext \<and> length mid < 2 ^ 64"
  then have l: "strrchr (q @ CHR '':'' # ptext) CHR '':'' = Some (length q)"
    by (simp add: strrchr_last)
  have d: "drop (Suc (length q)) (q @ CHR '':'' # ptext) = ptext"
    by simp
  from a have "CHR '']'' \<notin> set (q @ CHR '':'' # ptext)"
    by simp
  from parts_bracket [OF _ this, of pre mid] a l d
  show "setAddress_parts (pre @ CHR ''['' # mid @ CHR '']'' # q @ CHR '':'' # ptext) =
        (if length mid \<ge> INET6_ADDRSTRLEN + 1
         then Inl (runtime_error (quoted ''IPv6 address too long ''
                     (pre @ CHR ''['' # mid @ CHR '']'' # q @ CHR '':'' # ptext)))
         else Inr (AF_INET6, mid, Some ptext))"
    by simp
qed

theorem setAddress_parts_spec_witness:
  "setAddress_parts ''127.0.0.1'' = Inr (AF_INET, ''127.0.0.1'', None) \<and>
   setAddress_parts ''127.0.0.1:5076'' = Inr (AF_INET, ''127.0.0.1'', Some ''5076'') \<and>
   setAddress_parts ''::1'' = Inr (AF_INET6, ''::1'', None) \<and>
   setAddress_parts ''[::1]'' = Inr (AF_INET6, ''::1'', None) \<and>
   setAddress_parts ''[::1]:5075'' = Inr (AF_INET6, ''::1'', Some ''5075'')"
  using setAddress_parts_spec [where name = "''127.0.0.1''"]
    setAddress_parts_spec [where name = "''127.0.0.1:5076''"]
    setAddress_parts_spec [where name = "''::1''"]
    setAddress_parts_spec [where pre = "[]" and mid = "''::1''" and post = "[]"]
    setAddress_parts_spec [where pre = "[]" and mid = "''::1''" and q = "[]" and ptext = "''5075''"]
  by (simp add: INET6_ADDRSTRLEN_def)

subsection \<open>The output operator\<close>

lemma evutil_inet_ntop_fits: "evutil_inet_ntop conv src len = Some t \<Longrightarrow> length t < len"
  by (auto simp add: evutil_inet_ntop_def split: option.splits if_splits)

lemma ntohs_zero: "ntohs (0, 0) = 0"
  by (simp add: ntohs_def)

text \<open>
  C7. The output operator has a text for every value. For \<open>AF_INET\<close> it is the
  dotted-quad text \<open>t\<close> of the converter, followed by \<open>:port\<close> exactly when the port is
  not 0. For \<open>AF_INET6\<close> it is \<open>[t]\<close> with the colon-hex text \<open>t\<close> of the converter,
  then \<open>%scope\<close> exactly when the scope id is not 0, then \<open>:port\<close> exactly when the
  port is not 0, both after the closing bracket. For \<open>AF_UNSPEC\<close> it is \<open><>\<close>, and for
  every other family tag \<open><???>\<close>.
\<close>

theorem tostring_spec:
  "(sa_family v = AF_INET \<and>
    evutil_inet_ntop (inet_ntop4 E) (sin_addr v) (INET_ADDRSTRLEN + 1) = Some t \<longrightarrow>
      tostring E v = t @ (if port v \<noteq> 0 then '':'' @ dec (unat (port v)) else [])) \<and>
   (sa_family v = AF_INET6 \<and>
    evutil_inet_ntop (inet_ntop6 E) (sin6_addr v) (INET6_ADDRSTRLEN + 1) = Some t \<longrightarrow>
      tostring E v = ''['' @ t @ '']'' @
        (if sin6_scope_id v \<noteq> 0 then ''%'' @ dec (unat (sin6_scope_id v)) else []) @
        (if port v \<noteq> 0 then '':'' @ dec (unat (port v)) else [])) \<and>
   (sa_family v = AF_UNSPEC \<longrightarrow> tostring E v = ''<>'') \<and>
   (sa_family v \<noteq> AF_INET \<and> sa_family v \<noteq> AF_INET6 \<and> sa_family v \<noteq> AF_UNSPEC \<longrightarrow>
      tostring E v = ''<???>'')"
proof (intro conjI impI)
  assume a: "sa_family v = AF_INET \<and>
    evutil_inet_ntop (inet_ntop4 E) (sin_addr v) (INET_ADDRSTRLEN + 1) = Some t"
  then have "length t \<le> INET_ADDRSTRLEN"
    using evutil_inet_ntop_fits [of "inet_ntop4 E" "sin_addr v" "INET_ADDRSTRLEN + 1" t] by simp
  with a show "tostring E v = t @ (if port v \<noteq> 0 then '':'' @ dec (unat (port v)) else [])"
    by (simp add: tostring_def port_def)
next
  assume a: "sa_family v = AF_INET6 \<and>
    evutil_inet_ntop (inet_ntop6 E) (sin6_addr v) (INET6_ADDRSTRLEN + 1) = Some t"
  then have "length t \<le> INET6_ADDRSTRLEN"
    using evutil_inet_ntop_fits [of "inet_ntop6 E" "sin6_addr v" "INET6_ADDRSTRLEN + 1" t] by simp
  with a show "tostring E v = ''['' @ t @ '']'' @
        (if sin6_scope_id v \<noteq> 0 then ''%'' @ dec (unat (sin6_scope_id v)) else []) @
        (if port v \<noteq> 0 then '':'' @ dec (unat (port v)) else [])"
    by (simp add: tostring_def port_def AF_defs)
next
  assume "sa_family v = AF_UNSPEC"
  then show "tostring E v = ''<>''"
    by (simp add: tostring_def AF_defs)
next
  assume "sa_family v \<noteq> AF_INET \<and> sa_family v \<noteq> AF_INET6 \<and> sa_family v \<noteq> AF_UNSPEC"
  then show "tostring E v = ''<???>''"
    by (simp add: tostring_def)
qed

theorem tostring_spec_witness:
  "tostring sample_inet (store0\<lparr>sa_family := AF_INET, sin_port := htons 5075,
      sin_addr := (127, 0, 0, 1)\<rparr>) = ''127.0.0.1:5075'' \<and>
   tostring sample_inet (store0\<lparr>sa_family := AF_INET, sin_addr := (127, 0, 0, 1)\<rparr>) = ''127.0.0.1'' \<and>
   tostring sample_inet (store0\<lparr>sa_family := AF_INET6, sin6_port := htons 5075,
      sin6_addr := IN6ADDR_LOOPBACK_INIT, sin6_scope_id := 5\<rparr>) = ''[::1]%5:5075'' \<and>
   tostring sample_inet (store0\<lparr>sa_family := AF_INET6,
      sin6_addr := IN6ADDR_LOOPBACK_INIT\<rparr>) = ''[::1]'' \<and>
   tostring sample_inet store0 = ''<>'' \<and>
   tostring sample_inet (store0\<lparr>sa_family := 99\<rparr>) = ''<???>''"
  using tostring_spec [of "store0\<lparr>sa_family := AF_INET, sin_port := htons 5075,
      sin_addr := (127, 0, 0, 1)\<rparr>" sample_inet "''127.0.0.1''"]
    tostring_spec [of "store0\<lparr>sa_family := AF_INET, sin_addr := (127, 0, 0, 1)\<rparr>"
      sample_inet "''127.0.0.1''"]
    tostring_spec [of "store0\<lparr>sa_family := AF_INET6, sin6_port := htons 5075,
      sin6_addr := IN6ADDR_LOOPBACK_INIT, sin6_scope_id := 5\<rparr>" sample_inet "''::1''"]
    tostring_spec [of "store0\<lparr>sa_family := AF_INET6, sin6_addr := IN6ADDR_LOOPBACK_INIT\<rparr>"
      sample_inet "''::1''"]
    tostring_spec [of store0 sample_inet] tostring_spec [of "store0\<lparr>sa_family := 99\<rparr>" sample_inet]
  by (simp add: sample_inet_def evutil_inet_ntop_def INET_ADDRSTRLEN_def INET6_ADDRSTRLEN_def
      port_def ntohs_htons ntohs_zero store0_def AF_defs dec.simps dec_digit_def)

text \<open>
  The text on the two paths where the conversion fails. The \<open>AF_INET6\<close> branch writes
  \<open><???>\<close> in place of the bracketed address. The \<open>AF_INET\<close> branch writes \<open><???>\<close>
  and then the array \<open>buf\<close>, which \<open>operator<<\<close> itself has not written.
\<close>

lemma tostring_inet6_failed_conversion:
  "sa_family v = AF_INET6 \<Longrightarrow>
   evutil_inet_ntop (inet_ntop6 E) (sin6_addr v) (INET6_ADDRSTRLEN + 1) = None \<Longrightarrow>
   tostring E v = ''<???>'' @
     (if sin6_scope_id v \<noteq> 0 then ''%'' @ dec (unat (sin6_scope_id v)) else []) @
     (if port v \<noteq> 0 then '':'' @ dec (unat (port v)) else [])"
  by (simp add: tostring_def port_def AF_defs)

lemma tostring_inet_failed:
  "sa_family v = AF_INET \<Longrightarrow>
   evutil_inet_ntop (inet_ntop4 E) (sin_addr v) (INET_ADDRSTRLEN + 1) = None \<Longrightarrow>
   tostring E v = ''<???>'' @ ntop4_failed_buf E @
     (if port v \<noteq> 0 then '':'' @ dec (unat (port v)) else [])"
  by (simp add: tostring_def port_def)

subsection \<open>The port and the address of a parsed name\<close>

lemmas parseTo_eval = parseTo_uint64_def stoull_def isspace_def is_digit_def digit_of_def
  digits_value_def Let_def

lemma evutil_inet_pton_Some:
  "evutil_inet_pton E af src temp = Some temp' \<Longrightarrow>
   (af = AF_INET \<or> af = AF_INET6) \<and> sa_family temp' = sa_family temp"
  by (auto simp add: evutil_inet_pton_def split: if_splits)

lemma setAddress_inet6:
  assumes "setAddress_parts name = Inr (AF_INET6, addr, pt)" and "inet_pton6 E addr = Some a"
  shows "setAddress E name defport =
     (case pt of
        Some p \<Rightarrow>
          (case parseTo_uint64 p of Inl e \<Rightarrow> Inl e
           | Inr n \<Rightarrow> Inr (store0\<lparr>sa_family := AF_INET6, sin6_port := htons (ucast n),
                                  sin6_addr := a\<rparr>))
      | None \<Rightarrow> Inr (store0\<lparr>sa_family := AF_INET6, sin6_port := htons defport,
                            sin6_addr := a\<rparr>))"
  using assms
  by (simp add: setAddress_def SockAddr_af_def evutil_inet_pton_def setPort_def AF_defs
      store0_def split: option.splits sum.splits)

lemma setAddress_inet:
  assumes "setAddress_parts name = Inr (AF_INET, addr, pt)" and "inet_pton4 E addr = Some a"
  shows "setAddress E name defport =
     (case pt of
        Some p \<Rightarrow>
          (case parseTo_uint64 p of Inl e \<Rightarrow> Inl e
           | Inr n \<Rightarrow> Inr (store0\<lparr>sa_family := AF_INET, sin_port := htons (ucast n),
                                  sin_addr := a\<rparr>))
      | None \<Rightarrow> Inr (store0\<lparr>sa_family := AF_INET, sin_port := htons defport,
                            sin_addr := a\<rparr>))"
  using assms
  by (simp add: setAddress_def SockAddr_af_def evutil_inet_pton_def setPort_def AF_defs
      store0_def split: option.splits sum.splits)

lemma parts_bracket_fits:
  assumes "CHR ''['' \<notin> set pre" and "CHR '']'' \<notin> set post"
    and "length mid \<le> INET6_ADDRSTRLEN"
  shows "setAddress_parts (pre @ CHR ''['' # mid @ CHR '']'' # post) =
     Inr (AF_INET6, mid,
          (case strrchr post CHR '':'' of Some k \<Rightarrow> Some (drop (Suc k) post) | None \<Rightarrow> None))"
proof -
  have "length mid < 2 ^ 64"
    using assms(3) by (simp add: INET6_ADDRSTRLEN_def)
  then have "length mid mod 2 ^ 64 = length mid"
    by simp
  with parts_bracket [OF assms(1,2), of mid] assms(3) show ?thesis
    by simp
qed

text \<open>
  C1, as the code has it. When the port text of a name parses to a value \<open>n\<close> and the
  address text converts, \<open>setAddress\<close> succeeds and the port of the result is \<open>n\<close>
  modulo 65536: \<open>setPort\<close> takes an \<open>unsigned short\<close>, and the \<open>uint64_t\<close> of
  \<open>parseTo\<close> is converted to it with no range check. A value above 65535 is cut to
  its low 16 bits, not rejected.
\<close>

theorem setAddress_port_truncated:
  assumes "setAddress_parts name = Inr (af, addr, Some ptext)"
    and "evutil_inet_pton E af addr (store0\<lparr>sa_family := af\<rparr>) = Some temp"
    and "parseTo_uint64 ptext = Inr n"
  shows "\<exists>v. setAddress E name defport = Inr v \<and> port v = ucast n \<and>
             unat (port v) = unat n mod 65536"
proof -
  from evutil_inet_pton_Some [OF assms(2)]
  have af: "af = AF_INET \<or> af = AF_INET6" and fam: "sa_family temp = af"
    by simp_all
  from af fam obtain v where v: "setPort temp (ucast n) = Inr v" and p: "port v = ucast n"
    by (auto simp add: setPort_def port_def ntohs_htons AF_defs)
  have "setAddress E name defport = Inr v"
    using assms v by (simp add: setAddress_def SockAddr_af_def)
  moreover have "unat (ucast n :: 16 word) = unat n mod 65536"
    by (simp add: unsigned_ucast_eq take_bit_eq_mod)
  ultimately show ?thesis
    using p by auto
qed

theorem setAddress_port_truncated_witness:
  "setAddress_parts ''1.2.3.4:99999'' = Inr (AF_INET, ''1.2.3.4'', Some ''99999'') \<and>
   evutil_inet_pton sample_inet AF_INET ''1.2.3.4'' (store0\<lparr>sa_family := AF_INET\<rparr>) =
     Some (store0\<lparr>sa_family := AF_INET, sin_addr := (1, 2, 3, 4)\<rparr>) \<and>
   parseTo_uint64 ''99999'' = Inr 99999 \<and>
   (\<exists>v. setAddress sample_inet ''1.2.3.4:99999'' 0 = Inr v \<and> port v = 34463 \<and>
        unat (port v) = 99999 mod 65536)"
proof -
  have a: "setAddress_parts ''1.2.3.4:99999'' = Inr (AF_INET, ''1.2.3.4'', Some ''99999'')"
    by (simp add: setAddress_parts_def INET6_ADDRSTRLEN_def)
  have b: "evutil_inet_pton sample_inet AF_INET ''1.2.3.4'' (store0\<lparr>sa_family := AF_INET\<rparr>) =
     Some (store0\<lparr>sa_family := AF_INET, sin_addr := (1, 2, 3, 4)\<rparr>)"
    by (simp add: evutil_inet_pton_def sample_inet_def)
  have c: "parseTo_uint64 ''99999'' = Inr 99999"
    by (simp add: parseTo_eval)
  have w: "(99999 :: 16 word) = 34463"
    by simp
  from setAddress_port_truncated [OF a b c, of 0] a b c show ?thesis
    by (simp add: w)
qed

text \<open>
  C1 as stated fails at \<open>"1.2.3.4:99999"\<close>: the port text parses to 99999, which is
  above 65535, and the name is accepted, with port 34463.
\<close>

theorem setAddress_port_99999:
  "parseTo_uint64 ''99999'' = Inr 99999 \<and> unat (99999 :: 64 word) > 65535 \<and>
   setAddress sample_inet ''1.2.3.4:99999'' 0 =
     Inr (store0\<lparr>sa_family := AF_INET, sin_port := htons 34463, sin_addr := (1, 2, 3, 4)\<rparr>)"
proof -
  have w: "(99999 :: 16 word) = 34463"
    by simp
  show ?thesis
    by (simp add: setAddress_def setAddress_parts_def INET6_ADDRSTRLEN_def SockAddr_af_def
        evutil_inet_pton_def sample_inet_def setPort_def parseTo_eval AF_defs w)
qed

text \<open>
  C10, as the code has it. In a name whose first \<open>[\<close> precedes its last \<open>]\<close>, with
  a text of at most \<open>INET6_ADDRSTRLEN\<close> characters between them that the converter
  accepts, only that text is the address: the characters before \<open>[\<close> are ignored,
  and so are those after \<open>]\<close> up to the last colon. With no colon after \<open>]\<close> the
  parse succeeds with the default port; with one, the text after the last colon is the
  port text, and the parse succeeds when \<open>parseTo\<close> accepts it and fails with the
  exception of \<open>parseTo\<close> when it does not.
\<close>

theorem setAddress_bracket_garbage:
  "CHR ''['' \<notin> set pre \<and> CHR '']'' \<notin> set post \<and> length mid \<le> INET6_ADDRSTRLEN \<and>
   inet_pton6 E mid = Some a \<longrightarrow>
     (CHR '':'' \<notin> set post \<longrightarrow>
        setAddress E (pre @ CHR ''['' # mid @ CHR '']'' # post) defport =
          Inr (store0\<lparr>sa_family := AF_INET6, sin6_port := htons defport, sin6_addr := a\<rparr>)) \<and>
     (post = q @ CHR '':'' # ptext \<and> CHR '':'' \<notin> set ptext \<and> parseTo_uint64 ptext = Inr n \<longrightarrow>
        setAddress E (pre @ CHR ''['' # mid @ CHR '']'' # post) defport =
          Inr (store0\<lparr>sa_family := AF_INET6, sin6_port := htons (ucast n), sin6_addr := a\<rparr>)) \<and>
     (post = q @ CHR '':'' # ptext \<and> CHR '':'' \<notin> set ptext \<and> parseTo_uint64 ptext = Inl e \<longrightarrow>
        setAddress E (pre @ CHR ''['' # mid @ CHR '']'' # post) defport = Inl e)"
proof (intro impI)
  assume a: "CHR ''['' \<notin> set pre \<and> CHR '']'' \<notin> set post \<and> length mid \<le> INET6_ADDRSTRLEN \<and>
    inet_pton6 E mid = Some a"
  let ?name = "pre @ CHR ''['' # mid @ CHR '']'' # post"
  let ?pt = "case strrchr post CHR '':'' of Some k \<Rightarrow> Some (drop (Suc k) post) | None \<Rightarrow> None"
  from a have parts: "setAddress_parts ?name = Inr (AF_INET6, mid, ?pt)"
    by (simp add: parts_bracket_fits)
  note sa = setAddress_inet6 [OF parts, of E a defport]
  have none: "CHR '':'' \<notin> set post \<Longrightarrow> ?pt = None"
    by (simp add: strrchr_None [THEN iffD2])
  have some: "post = q @ CHR '':'' # ptext \<and> CHR '':'' \<notin> set ptext \<Longrightarrow> ?pt = Some ptext"
    by (auto simp add: strrchr_last)
  show "(CHR '':'' \<notin> set post \<longrightarrow>
        setAddress E ?name defport =
          Inr (store0\<lparr>sa_family := AF_INET6, sin6_port := htons defport, sin6_addr := a\<rparr>)) \<and>
     (post = q @ CHR '':'' # ptext \<and> CHR '':'' \<notin> set ptext \<and> parseTo_uint64 ptext = Inr n \<longrightarrow>
        setAddress E ?name defport =
          Inr (store0\<lparr>sa_family := AF_INET6, sin6_port := htons (ucast n), sin6_addr := a\<rparr>)) \<and>
     (post = q @ CHR '':'' # ptext \<and> CHR '':'' \<notin> set ptext \<and> parseTo_uint64 ptext = Inl e \<longrightarrow>
        setAddress E ?name defport = Inl e)"
  proof (intro conjI impI)
    assume "CHR '':'' \<notin> set post"
    from none [OF this] sa a
    show "setAddress E ?name defport =
          Inr (store0\<lparr>sa_family := AF_INET6, sin6_port := htons defport, sin6_addr := a\<rparr>)"
      by simp
  next
    assume b: "post = q @ CHR '':'' # ptext \<and> CHR '':'' \<notin> set ptext \<and> parseTo_uint64 ptext = Inr n"
    then have "?pt = Some ptext"
      using some by blast
    with sa a b
    show "setAddress E ?name defport =
          Inr (store0\<lparr>sa_family := AF_INET6, sin6_port := htons (ucast n), sin6_addr := a\<rparr>)"
      by simp
  next
    assume b: "post = q @ CHR '':'' # ptext \<and> CHR '':'' \<notin> set ptext \<and> parseTo_uint64 ptext = Inl e"
    then have "?pt = Some ptext"
      using some by blast
    with sa a b show "setAddress E ?name defport = Inl e"
      by simp
  qed
qed

theorem setAddress_bracket_garbage_witness:
  "setAddress sample_inet ''[::1]garbage'' 7 =
     Inr (store0\<lparr>sa_family := AF_INET6, sin6_port := htons 7,
                 sin6_addr := IN6ADDR_LOOPBACK_INIT\<rparr>) \<and>
   setAddress sample_inet ''x[::1]y:0x10 '' 7 =
     Inr (store0\<lparr>sa_family := AF_INET6, sin6_port := htons 16,
                 sin6_addr := IN6ADDR_LOOPBACK_INIT\<rparr>) \<and>
   setAddress sample_inet ''[::1]:zz'' 7 = Inl (NoConvert (quoted ''Invalid input : '' ''zz''))"
proof -
  have p: "parseTo_uint64 ''0x10 '' = Inr 16"
    by (simp add: parseTo_eval)
  have z: "parseTo_uint64 ''zz'' = Inl (NoConvert (quoted ''Invalid input : '' ''zz''))"
    by (simp add: parseTo_eval)
  from setAddress_bracket_garbage [where pre = "[]" and mid = "''::1''" and post = "''garbage''"
      and E = sample_inet and a = IN6ADDR_LOOPBACK_INIT and defport = 7]
    setAddress_bracket_garbage [where pre = "''x''" and mid = "''::1''" and post = "''y:0x10 ''"
      and q = "''y''" and ptext = "''0x10 ''" and n = 16
      and E = sample_inet and a = IN6ADDR_LOOPBACK_INIT and defport = 7]
    setAddress_bracket_garbage [where pre = "[]" and mid = "''::1''" and post = "'':zz''"
      and q = "[]" and ptext = "''zz''" and e = "NoConvert (quoted ''Invalid input : '' ''zz'')"
      and E = sample_inet and a = IN6ADDR_LOOPBACK_INIT and defport = 7]
    p z
  show ?thesis
    by (simp add: sample_inet_def INET6_ADDRSTRLEN_def)
qed

text \<open>
  C10 as stated fails at \<open>"[::1]:zz"\<close>: the brackets hold a valid IPv6 literal, and the
  parse fails on the port text.
\<close>

theorem setAddress_bracket_bad_port:
  "inet_pton6 sample_inet ''::1'' = Some IN6ADDR_LOOPBACK_INIT \<and>
   setAddress sample_inet ''[::1]:zz'' 7 = Inl (NoConvert (quoted ''Invalid input : '' ''zz''))"
  by (simp add: setAddress_def setAddress_parts_def INET6_ADDRSTRLEN_def SockAddr_af_def
      evutil_inet_pton_def sample_inet_def parseTo_eval AF_defs)

subsection \<open>Decimal port numbers\<close>

lemma digit_cases: "(d :: nat) < 10 \<Longrightarrow>
    d = 0 \<or> d = 1 \<or> d = 2 \<or> d = 3 \<or> d = 4 \<or> d = 5 \<or> d = 6 \<or> d = 7 \<or> d = 8 \<or> d = 9"
  by arith

lemma digit_of_dec_digit: "d < 10 \<Longrightarrow> digit_of (dec_digit d) = d"
  by (drule digit_cases) (auto simp add: digit_of_def dec_digit_def)

lemma dec_digit_mem: "d < 10 \<Longrightarrow> dec_digit d \<in> set ''0123456789''"
  by (drule digit_cases) (auto simp add: dec_digit_def)

lemma dec_digit_nonzero: "0 < d \<Longrightarrow> d < 10 \<Longrightarrow> dec_digit d \<in> set ''123456789''"
  by (drule digit_cases) (auto simp add: dec_digit_def)

lemma digit_char_props:
  "c \<in> set ''0123456789'' \<Longrightarrow>
   is_digit 10 c \<and> \<not> isspace c \<and> c \<noteq> CHR '':'' \<and> c \<noteq> CHR ''['' \<and> c \<noteq> CHR '']'' \<and>
   c \<noteq> CHR ''-'' \<and> c \<noteq> CHR ''+''"
  by (auto simp add: is_digit_def digit_of_def isspace_def)

lemma set_dec: "set (dec n) \<subseteq> set ''0123456789''"
proof (induction n rule: dec.induct)
  case (1 n)
  show ?case
  proof (cases "n < 10")
    case True
    then show ?thesis
      using dec_digit_mem [of n] by (subst dec.simps) simp
  next
    case False
    have "n mod 10 < 10" by simp
    from dec_digit_mem [OF this] 1 [OF False] False show ?thesis
      by (subst dec.simps) simp
  qed
qed

lemma dec_leading:
  "0 < n \<Longrightarrow> \<exists>c cs. dec n = c # cs \<and> c \<in> set ''123456789''"
proof (induction n rule: dec.induct)
  case (1 n)
  show ?case
  proof (cases "n < 10")
    case True
    with 1(2) dec_digit_nonzero [of n] show ?thesis
      by (subst dec.simps) simp
  next
    case False
    then have "0 < n div 10" by simp
    from 1(1) [OF False this] obtain c cs where "dec (n div 10) = c # cs"
      and "c \<in> set ''123456789''" by blast
    with False show ?thesis
      by (subst dec.simps) simp
  qed
qed

lemma digits_value_dec: "digits_value 10 (dec n) = n"
proof (induction n rule: dec.induct)
  case (1 n)
  show ?case
  proof (cases "n < 10")
    case True
    then show ?thesis
      by (subst dec.simps) (simp add: digits_value_def digit_of_dec_digit)
  next
    case False
    from 1 [OF False] False show ?thesis
      by (subst dec.simps) (simp add: digits_value_def digit_of_dec_digit)
  qed
qed

lemma takeWhile_digits_dec: "takeWhile (is_digit 10) (dec n) = dec n"
  using set_dec [of n] digit_char_props by (intro takeWhile_eq_all_conv [THEN iffD2]) blast

lemma stoull_dec:
  assumes "0 < n" and "n < 2 ^ 64"
  shows "stoull (dec n) = Inr (word_of_nat n, length (dec n))"
proof -
  from dec_leading [OF assms(1)] obtain c cs where d: "dec n = c # cs"
    and c: "c \<in> set ''123456789''" by blast
  from c have c0: "c \<in> set ''0123456789''" and nz: "c \<noteq> CHR ''0''"
    by auto
  note cp = digit_char_props [OF c0]
  have ds: "takeWhile (is_digit 10) (c # cs) = c # cs"
    using takeWhile_digits_dec [of n] d by simp
  then have ds': "takeWhile (is_digit 10) cs = cs"
    using cp by simp
  have v: "digits_value 10 (c # cs) = n"
    using digits_value_dec [of n] d by simp
  have le: "\<not> n > 2 ^ 64 - 1"
    using assms(2) by simp
  have hex: "\<not> (case c # cs of c0 # c1 # c2 # _ \<Rightarrow>
                   c0 = CHR ''0'' \<and> (c1 = CHR ''x'' \<or> c1 = CHR ''X'') \<and> is_digit 16 c2
                 | _ \<Rightarrow> False)"
    using nz by (simp split: list.splits)
  have "stoull (c # cs) = Inr (word_of_nat n, length (c # cs))"
    unfolding stoull_def Let_def
    using cp nz le hex v by (simp add: ds')
  with d show ?thesis
    by simp
qed

lemma parseTo_uint64_dec:
  assumes "0 < n" and "n < 2 ^ 64"
  shows "parseTo_uint64 (dec n) = Inr (word_of_nat n)"
  by (simp add: parseTo_uint64_def stoull_dec [OF assms])

lemma parseTo_uint64_port:
  assumes "(q :: 16 word) \<noteq> 0"
  shows "parseTo_uint64 (dec (unat q)) = Inr (word_of_nat (unat q))"
proof -
  have "0 < unat q"
    using assms by (simp add: unat_gt_0)
  moreover have "unat q < 2 ^ 64"
    using unsigned_less [of q, where 'a = nat] by simp
  ultimately show ?thesis
    by (rule parseTo_uint64_dec)
qed

subsection \<open>From a value to its text and back\<close>

lemma tostring_inet_text:
  assumes "sa_family v = AF_INET"
    and "evutil_inet_ntop (inet_ntop4 E) (sin_addr v) (INET_ADDRSTRLEN + 1) = Some t"
  shows "tostring E v =
     t @ (if ntohs (sin_port v) \<noteq> 0 then CHR '':'' # dec (unat (ntohs (sin_port v))) else [])"
proof -
  have "length t \<le> INET_ADDRSTRLEN"
    using evutil_inet_ntop_fits [OF assms(2)] by simp
  with assms show ?thesis
    by (simp add: tostring_def)
qed

lemma tostring_inet6_text:
  assumes "sa_family v = AF_INET6" and "sin6_scope_id v = 0"
    and "evutil_inet_ntop (inet_ntop6 E) (sin6_addr v) (INET6_ADDRSTRLEN + 1) = Some t"
  shows "tostring E v =
     CHR ''['' # t @ CHR '']'' #
       (if ntohs (sin6_port v) \<noteq> 0 then CHR '':'' # dec (unat (ntohs (sin6_port v))) else [])"
proof -
  have "length t \<le> INET6_ADDRSTRLEN"
    using evutil_inet_ntop_fits [OF assms(3)] by simp
  with assms show ?thesis
    by (simp add: tostring_def AF_defs)
qed

lemma ucast_port64: "(ucast (ucast (q :: 16 word) :: 64 word) :: 16 word) = q"
  by (rule bit_word_eqI) (auto simp add: bit_simps)

lemma dec_no_delimiter:
  "CHR '':'' \<notin> set (dec n) \<and> CHR ''['' \<notin> set (dec n) \<and> CHR '']'' \<notin> set (dec n)"
  using set_dec [of n] by auto

lemma parts_port4_append:
  assumes "CHR '':'' \<notin> set a" "CHR ''['' \<notin> set a" "CHR '']'' \<notin> set a"
    and "CHR '':'' \<notin> set pt" "CHR ''['' \<notin> set pt" "CHR '']'' \<notin> set pt"
    and "length a \<le> INET6_ADDRSTRLEN"
  shows "setAddress_parts (a @ CHR '':'' # pt) = Inr (AF_INET, a, Some pt)"
proof -
  have first: "strchr (a @ CHR '':'' # pt) CHR '':'' = Some (length a)"
    using assms(1) by (rule strchr_append)
  have last: "strrchr (a @ CHR '':'' # pt) CHR '':'' = Some (length a)"
    using assms(4) by (rule strrchr_last)
  have ob: "strchr (a @ CHR '':'' # pt) CHR ''['' = None"
    using assms(2,5) by (simp add: strchr_None)
  have cb: "strrchr (a @ CHR '':'' # pt) CHR '']'' = None"
    using assms(3,6) by (simp add: strrchr_None)
  show ?thesis
    unfolding setAddress_parts_def Let_def first last ob cb
    using assms(7) by simp
qed

lemma roundtrip_inet:
  assumes fam: "sa_family v = AF_INET"
    and ntop: "evutil_inet_ntop (inet_ntop4 E) (sin_addr v) (INET_ADDRSTRLEN + 1) = Some t"
    and pton: "inet_pton4 E t = Some (sin_addr v)"
    and clean: "CHR '':'' \<notin> set t" "CHR ''['' \<notin> set t" "CHR '']'' \<notin> set t"
    and dflt: "port v \<noteq> 0 \<or> p = 0"
  shows "\<exists>w. setAddress E (tostring E v) p = Inr w \<and> tostring E w = tostring E v \<and>
             sa_family w = AF_INET \<and> sin_addr w = sin_addr v \<and> port w = port v"
proof -
  define q where "q = ntohs (sin_port v)"
  have pv: "port v = q"
    using fam by (simp add: port_def q_def)
  define w where "w = store0\<lparr>sa_family := AF_INET, sin_port := htons q, sin_addr := sin_addr v\<rparr>"
  have wf: "sa_family w = AF_INET" "sin_addr w = sin_addr v" "ntohs (sin_port w) = q"
    by (simp_all add: w_def ntohs_htons)
  have tv: "tostring E v = t @ (if q \<noteq> 0 then CHR '':'' # dec (unat q) else [])"
    using tostring_inet_text [OF fam ntop] by (simp add: q_def)
  have tw: "tostring E w = t @ (if q \<noteq> 0 then CHR '':'' # dec (unat q) else [])"
    using tostring_inet_text [of w E t] wf ntop by simp
  have len: "length t \<le> INET6_ADDRSTRLEN"
    using evutil_inet_ntop_fits [OF ntop] by (simp add: INET_ADDRSTRLEN_def INET6_ADDRSTRLEN_def)
  have "setAddress E (tostring E v) p = Inr w"
  proof (cases "q = 0")
    case True
    with dflt pv have p0: "p = 0" by simp
    have "setAddress_parts t = Inr (AF_INET, t, None)"
      using clean by (rule parts_plain4)
    from setAddress_inet [OF this pton, of p] True p0 tv show ?thesis
      by (simp add: w_def)
  next
    case False
    have "setAddress_parts (t @ CHR '':'' # dec (unat q)) = Inr (AF_INET, t, Some (dec (unat q)))"
      using clean dec_no_delimiter [of "unat q"] len by (intro parts_port4_append) simp_all
    from setAddress_inet [OF this pton, of p] False tv show ?thesis
      by (simp add: w_def parseTo_uint64_port ucast_port64)
  qed
  with tv tw wf pv show ?thesis
    by (auto simp add: port_def)
qed

lemma roundtrip_inet6:
  assumes fam: "sa_family v = AF_INET6" and scope: "sin6_scope_id v = 0"
    and ntop: "evutil_inet_ntop (inet_ntop6 E) (sin6_addr v) (INET6_ADDRSTRLEN + 1) = Some t"
    and pton: "inet_pton6 E t = Some (sin6_addr v)"
    and clean: "CHR ''['' \<notin> set t" "CHR '']'' \<notin> set t"
    and dflt: "port v \<noteq> 0 \<or> p = 0"
  shows "\<exists>w. setAddress E (tostring E v) p = Inr w \<and> tostring E w = tostring E v \<and>
             sa_family w = AF_INET6 \<and> sin6_addr w = sin6_addr v \<and> port w = port v"
proof -
  define q where "q = ntohs (sin6_port v)"
  have pv: "port v = q"
    using fam by (simp add: port_def q_def AF_defs)
  define w where "w = store0\<lparr>sa_family := AF_INET6, sin6_port := htons q,
                              sin6_addr := sin6_addr v\<rparr>"
  have wf: "sa_family w = AF_INET6" "sin6_addr w = sin6_addr v" "ntohs (sin6_port w) = q"
    "sin6_scope_id w = 0"
    by (simp_all add: w_def ntohs_htons store0_def)
  define rest where "rest = (if q \<noteq> 0 then CHR '':'' # dec (unat q) else [])"
  have tv: "tostring E v = [] @ CHR ''['' # t @ CHR '']'' # rest"
    using tostring_inet6_text [OF fam scope ntop] by (simp add: q_def rest_def)
  have tw: "tostring E w = [] @ CHR ''['' # t @ CHR '']'' # rest"
    using tostring_inet6_text [of w E t] wf ntop by (simp add: rest_def)
  have len: "length t \<le> INET6_ADDRSTRLEN"
    using evutil_inet_ntop_fits [OF ntop] by simp
  have nb: "CHR '']'' \<notin> set rest"
    using dec_no_delimiter [of "unat q"] by (simp add: rest_def)
  have pt: "(case strrchr rest CHR '':'' of Some k \<Rightarrow> Some (drop (Suc k) rest) | None \<Rightarrow> None) =
      (if q \<noteq> 0 then Some (dec (unat q)) else None)"
  proof (cases "q = 0")
    case True
    then show ?thesis by (simp add: rest_def)
  next
    case False
    have "strrchr ([] @ CHR '':'' # dec (unat q)) CHR '':'' = Some (length ([] :: string))"
      using dec_no_delimiter [of "unat q"] by (intro strrchr_last) simp
    with False show ?thesis by (simp add: rest_def)
  qed
  have parts: "setAddress_parts ([] @ CHR ''['' # t @ CHR '']'' # rest) =
      Inr (AF_INET6, t, if q \<noteq> 0 then Some (dec (unat q)) else None)"
    using parts_bracket_fits [of "[]" rest t] nb len pt by simp
  have "setAddress E (tostring E v) p = Inr w"
  proof (cases "q = 0")
    case True
    with dflt pv have p0: "p = 0" by simp
    from setAddress_inet6 [OF parts pton, of p] True p0 tv show ?thesis
      by (simp add: w_def)
  next
    case False
    from setAddress_inet6 [OF parts pton, of p] False tv show ?thesis
      by (simp add: w_def parseTo_uint64_port ucast_port64)
  qed
  with tv tw wf pv show ?thesis
    by (auto simp add: port_def AF_defs)
qed

text \<open>
  C4, as the code has it. Let \<open>v\<close> be an IPv4 value, or an IPv6 value with scope id
  0, whose address the converter renders as a text \<open>t\<close> and reads back from \<open>t\<close>,
  where \<open>t\<close> has no bracket and, for IPv4, no colon; and let the default port \<open>p\<close> be
  0 unless the port of \<open>v\<close> is not 0. Then parsing the text of \<open>v\<close> with default port
  \<open>p\<close> succeeds, and the text of the result is the text of \<open>v\<close>.
\<close>

theorem tostring_setAddress_roundtrip:
  "(sa_family v = AF_INET \<and>
    evutil_inet_ntop (inet_ntop4 E) (sin_addr v) (INET_ADDRSTRLEN + 1) = Some t \<and>
    inet_pton4 E t = Some (sin_addr v) \<and>
    CHR '':'' \<notin> set t \<and> CHR ''['' \<notin> set t \<and> CHR '']'' \<notin> set t \<and>
    (port v \<noteq> 0 \<or> p = 0) \<longrightarrow>
      (\<exists>w. setAddress E (tostring E v) p = Inr w \<and> tostring E w = tostring E v)) \<and>
   (sa_family v = AF_INET6 \<and> sin6_scope_id v = 0 \<and>
    evutil_inet_ntop (inet_ntop6 E) (sin6_addr v) (INET6_ADDRSTRLEN + 1) = Some t \<and>
    inet_pton6 E t = Some (sin6_addr v) \<and>
    CHR ''['' \<notin> set t \<and> CHR '']'' \<notin> set t \<and>
    (port v \<noteq> 0 \<or> p = 0) \<longrightarrow>
      (\<exists>w. setAddress E (tostring E v) p = Inr w \<and> tostring E w = tostring E v))"
proof (intro conjI impI)
  assume "sa_family v = AF_INET \<and>
    evutil_inet_ntop (inet_ntop4 E) (sin_addr v) (INET_ADDRSTRLEN + 1) = Some t \<and>
    inet_pton4 E t = Some (sin_addr v) \<and>
    CHR '':'' \<notin> set t \<and> CHR ''['' \<notin> set t \<and> CHR '']'' \<notin> set t \<and>
    (port v \<noteq> 0 \<or> p = 0)"
  then show "\<exists>w. setAddress E (tostring E v) p = Inr w \<and> tostring E w = tostring E v"
    using roundtrip_inet [of v E t p] by blast
next
  assume "sa_family v = AF_INET6 \<and> sin6_scope_id v = 0 \<and>
    evutil_inet_ntop (inet_ntop6 E) (sin6_addr v) (INET6_ADDRSTRLEN + 1) = Some t \<and>
    inet_pton6 E t = Some (sin6_addr v) \<and>
    CHR ''['' \<notin> set t \<and> CHR '']'' \<notin> set t \<and>
    (port v \<noteq> 0 \<or> p = 0)"
  then show "\<exists>w. setAddress E (tostring E v) p = Inr w \<and> tostring E w = tostring E v"
    using roundtrip_inet6 [of v E t p] by blast
qed

theorem tostring_setAddress_roundtrip_witness:
  "evutil_inet_ntop (inet_ntop4 sample_inet) (127, 0, 0, 1) (INET_ADDRSTRLEN + 1) =
     Some ''127.0.0.1'' \<and>
   inet_pton4 sample_inet ''127.0.0.1'' = Some (127, 0, 0, 1) \<and>
   (\<exists>w. setAddress sample_inet
          (tostring sample_inet (store0\<lparr>sa_family := AF_INET, sin_port := htons 5075,
             sin_addr := (127, 0, 0, 1)\<rparr>)) 9 = Inr w \<and>
        tostring sample_inet w =
          tostring sample_inet (store0\<lparr>sa_family := AF_INET, sin_port := htons 5075,
             sin_addr := (127, 0, 0, 1)\<rparr>)) \<and>
   evutil_inet_ntop (inet_ntop6 sample_inet) IN6ADDR_LOOPBACK_INIT (INET6_ADDRSTRLEN + 1) =
     Some ''::1'' \<and>
   inet_pton6 sample_inet ''::1'' = Some IN6ADDR_LOOPBACK_INIT \<and>
   (\<exists>w. setAddress sample_inet
          (tostring sample_inet (store0\<lparr>sa_family := AF_INET6,
             sin6_addr := IN6ADDR_LOOPBACK_INIT\<rparr>)) 0 = Inr w \<and>
        tostring sample_inet w =
          tostring sample_inet (store0\<lparr>sa_family := AF_INET6,
             sin6_addr := IN6ADDR_LOOPBACK_INIT\<rparr>))"
  using tostring_setAddress_roundtrip [where v = "store0\<lparr>sa_family := AF_INET,
        sin_port := htons 5075, sin_addr := (127, 0, 0, 1)\<rparr>"
      and E = sample_inet and t = "''127.0.0.1''" and p = 9]
    tostring_setAddress_roundtrip [where v = "store0\<lparr>sa_family := AF_INET6,
        sin6_addr := IN6ADDR_LOOPBACK_INIT\<rparr>"
      and E = sample_inet and t = "''::1''" and p = 0]
  by (simp add: sample_inet_def evutil_inet_ntop_def INET_ADDRSTRLEN_def INET6_ADDRSTRLEN_def
      port_def ntohs_htons AF_defs store0_def)

text \<open>
  C4 as stated fails in three ways. The text \<open>[::1]%5\<close> of an IPv6 value with scope
  id 5 parses to a value with scope id 0, whose text is \<open>[::1]\<close>: the parser has no
  syntax for the scope. The text \<open>127.0.0.1\<close> of an IPv4 value with port 0 parses
  with default port 5075 to a value whose text is \<open>127.0.0.1:5075\<close>. The text \<open><>\<close>
  of the \<open>AF_UNSPEC\<close> value does not parse.
\<close>

theorem tostring_setAddress_not_roundtrip:
  "tostring sample_inet (store0\<lparr>sa_family := AF_INET6, sin6_addr := IN6ADDR_LOOPBACK_INIT,
      sin6_scope_id := 5\<rparr>) = ''[::1]%5'' \<and>
   setAddress sample_inet ''[::1]%5'' 0 =
     Inr (store0\<lparr>sa_family := AF_INET6, sin6_port := htons 0,
                 sin6_addr := IN6ADDR_LOOPBACK_INIT\<rparr>) \<and>
   tostring sample_inet (store0\<lparr>sa_family := AF_INET6, sin6_port := htons 0,
      sin6_addr := IN6ADDR_LOOPBACK_INIT\<rparr>) = ''[::1]'' \<and>
   tostring sample_inet (store0\<lparr>sa_family := AF_INET, sin_addr := (127, 0, 0, 1)\<rparr>) =
     ''127.0.0.1'' \<and>
   setAddress sample_inet ''127.0.0.1'' 5075 =
     Inr (store0\<lparr>sa_family := AF_INET, sin_port := htons 5075, sin_addr := (127, 0, 0, 1)\<rparr>) \<and>
   tostring sample_inet (store0\<lparr>sa_family := AF_INET, sin_port := htons 5075,
      sin_addr := (127, 0, 0, 1)\<rparr>) = ''127.0.0.1:5075'' \<and>
   tostring sample_inet store0 = ''<>'' \<and>
   setAddress sample_inet ''<>'' 0 =
     Inl (runtime_error (quoted ''Not a valid IP address '' ''<>''))"
  by (intro conjI)
    (simp_all add: tostring_def setAddress_def setAddress_parts_def SockAddr_af_def
      evutil_inet_pton_def evutil_inet_ntop_def setPort_def sample_inet_def
      INET_ADDRSTRLEN_def INET6_ADDRSTRLEN_def ntohs_htons ntohs_zero store0_def AF_defs
      dec.simps dec_digit_def)

end
